theory Spec2Isabelle
  imports Main
begin

section \<open>Data model of \<open>liora-core.js\<close>\<close>

text \<open>
  JavaScript strings are modelled as \<open>string\<close>: a character stands for a UTF-16 code
  unit below 256. Objects used as dictionaries (\<open>config.groups\<close>,
  \<open>config.commandAliases\<close>, \<open>userMessageCounters\<close>, ...) are maps of their own
  properties; what they inherit from \<open>Object.prototype\<close> is added where the code reads
  them with \<open>in\<close> or \<open>obj[key]\<close> under a key that a user or a module chooses.
  \<open>bot.modules\<close> is an association list in insertion order, and \<open>ownKeysOrder\<close> is the
  order in which \<open>Object.keys\<close> lists it. User and server ids are Discord's, strings of
  digits that name nothing inherited. Numbers are whole: the message counters, the
  threshold and the configured durations are integers, clock times are natural numbers
  of milliseconds.
\<close>

section \<open>JavaScript objects\<close>

text \<open>
  A value read from a dictionary of strings: nothing, an own string, or what the plain
  object inherits under that name from \<open>Object.prototype\<close> (a function, or the prototype
  itself under \<open>__proto__\<close>), which is truthy and equal to no string.
\<close>

datatype js_value = Undefined | Str string | Inherited string

definition inheritedNames :: "string list" where
  "inheritedNames =
     [''constructor'', ''__defineGetter__'', ''__defineSetter__'', ''hasOwnProperty'',
      ''__lookupGetter__'', ''__lookupSetter__'', ''isPrototypeOf'', ''propertyIsEnumerable'',
      ''toString'', ''valueOf'', ''__proto__'', ''toLocaleString'']"

text \<open>\<open>key in obj\<close> and \<open>obj[key]\<close> on a plain object.\<close>

definition hasProp :: "(string \<rightharpoonup> 'v) \<Rightarrow> string \<Rightarrow> bool" where
  "hasProp obj k = (obj k \<noteq> None \<or> k \<in> set inheritedNames)"

definition getProp :: "(string \<rightharpoonup> string) \<Rightarrow> string \<Rightarrow> js_value" where
  "getProp obj k =
     (case obj k of
        Some v \<Rightarrow> Str v
      | None \<Rightarrow> if k \<in> set inheritedNames then Inherited k else Undefined)"

fun truthy :: "js_value \<Rightarrow> bool" where
  "truthy Undefined = False"
| "truthy (Str s) = (s \<noteq> [])"
| "truthy (Inherited k) = True"

text \<open>\<open>a || b\<close>.\<close>

definition orElse :: "js_value \<Rightarrow> js_value \<Rightarrow> js_value" where
  "orElse a b = (if truthy a then a else b)"

text \<open>
  The property key a value stands for when it is used as one: a string is itself, the
  prototype object prints as \<open>[object Object]\<close>, and a native function prints as V8
  prints it, with the function's name (\<open>Object\<close> for \<open>constructor\<close>).
\<close>

definition propertyKey :: "js_value \<Rightarrow> string" where
  "propertyKey v =
     (case v of
        Undefined \<Rightarrow> ''undefined''
      | Str s \<Rightarrow> s
      | Inherited k \<Rightarrow>
          if k = ''__proto__'' then ''[object Object]''
          else ''function '' @ (if k = ''constructor'' then ''Object'' else k)
               @ ''() { [native code] }'')"

text \<open>
  \<open>Object.keys\<close> lists the keys that are array indices (the canonical decimal form of a
  number up to \<open>2^32 - 2\<close>) first, in numeric order, and then the other keys in the
  order they were added.
\<close>

definition is_digit :: "char \<Rightarrow> bool" where
  "is_digit ch = (ch \<in> set ''0123456789'')"

definition index_value :: "string \<Rightarrow> nat" where
  "index_value k = foldl (\<lambda>n ch. 10 * n + (of_char ch - 48)) 0 k"

definition is_index :: "string \<Rightarrow> bool" where
  "is_index k =
     (k \<noteq> [] \<and> list_all is_digit k \<and> (k = ''0'' \<or> hd k \<noteq> CHR ''0'')
      \<and> index_value k \<le> 4294967294)"

definition ownKeysOrder :: "(string \<times> 'v) list \<Rightarrow> (string \<times> 'v) list" where
  "ownKeysOrder kvs =
     sort_key (\<lambda>kv. index_value (fst kv)) (filter (\<lambda>kv. is_index (fst kv)) kvs)
     @ filter (\<lambda>kv. \<not> is_index (fst kv)) kvs"

section \<open>The bot\<close>

record user =
  user_id :: string
  username :: string
  discriminator :: string
  is_bot :: bool

record guild_member =
  roles :: "string set"

record message =
  author :: user
  content :: string
  channel :: string
  guild :: "string option"
  member :: "guild_member option"

record colors =
  neutral :: string
  error :: string
  success :: string

record cooldown =
  intervalMs :: int
  messageCount :: int
  blockDurationMs :: int

record config =
  owner :: string
  prefix :: string
  commandAliases :: "string \<rightharpoonup> string"
  defaultColors :: colors
  defaultUserCooldown :: cooldown
  blockedUsers :: "string list"
  settings :: "string \<rightharpoonup> (string \<rightharpoonup> string)"
  groups :: "string \<rightharpoonup> string list"
  commandPermissions :: "string \<rightharpoonup> string"
  serverPermissions :: "string \<rightharpoonup> (string \<rightharpoonup> string)"

text \<open>
  What calling a command's \<open>execute\<close> hook does: it returns a promise that is fulfilled,
  returns a promise that is rejected with an error (carrying \<open>err.message\<close>), or throws
  before returning anything.
\<close>

datatype exec_outcome = Fulfilled | Rejected string | ThrewSync string

record command =
  name :: string
  aliases :: "string list"
  argumentNames :: "string list"
  permissionLevel :: string
  description :: string
  execute :: "string list \<Rightarrow> message \<Rightarrow> exec_outcome"

record module =
  path :: string
  commands :: "command list"
  defaultAliases :: "string \<rightharpoonup> string"

text \<open>
  \<open>setTimeout(f, d)\<close> called at time \<open>t\<close> is a pending timer due at \<open>t\<close> plus the
  delay Node gives it: \<open>d\<close> itself from 1 to \<open>2^31 - 1\<close>, and 1 millisecond for any other
  \<open>d\<close>. The two callbacks the rate limiter schedules are the constructors of
  \<open>timer_action\<close>.
\<close>

definition timeoutDelay :: "int \<Rightarrow> nat" where
  "timeoutDelay d = (if d < 1 \<or> 2147483647 < d then 1 else nat d)"

datatype timer_action = ClearCooldown string | Unblock string

type_synonym timer = "nat \<times> timer_action"

record bot =
  config :: config
  modules :: "(string \<times> module) list"
  moduleSources :: "string list"
  userCooldowns :: "string set"
  userMessageCounters :: "string \<rightharpoonup> int"
  timers :: "timer list"
  now :: nat

text \<open>
  The collaborators outside the file: the file system, \<open>require\<close>, \<open>path\<close>,
  \<open>pretty-ms\<close>, and whether discord.js resolves a colour (\<open>setColor\<close> throws a
  RangeError for one outside \<open>0\<close> to \<open>0xFFFFFF\<close>).
\<close>

record env =
  existsSync :: "string \<Rightarrow> bool"
  require :: "string \<Rightarrow> string + command list"
  path_join :: "string \<Rightarrow> string \<Rightarrow> string"
  dirname :: string
  prettyMs :: "int \<Rightarrow> string"
  resolvesColor :: "string \<Rightarrow> bool"

section \<open>Permission check\<close>

text \<open>
  The group and the role are whatever the caller read from the configuration.
  \<open>Object.keys(groups).includes(group)\<close> and \<open>member.roles.has(role)\<close> hold for strings
  only.
\<close>

definition hasPermission ::
  "bot \<Rightarrow> guild_member option \<Rightarrow> user \<Rightarrow> js_value \<Rightarrow> js_value \<Rightarrow> bool" where
  "hasPermission b mem usr grp role =
     (if user_id usr = owner (config b) then True
      else if grp = Str ''all'' then True
      else if (case grp of
                 Str g \<Rightarrow>
                   (case groups (config b) g of
                      None \<Rightarrow> False
                    | Some ids \<Rightarrow> user_id usr \<in> set ids)
               | _ \<Rightarrow> False) then True
      else if (case mem of
                 None \<Rightarrow> False
               | Some m \<Rightarrow> (case role of Str r \<Rightarrow> r \<in> roles m | _ \<Rightarrow> False)) then True
      else False)"

section \<open>Module registry\<close>

definition localModuleDirectory :: string where
  "localModuleDirectory = ''../modules''"

text \<open>
  \<open>newModule.defaultAliases[a] = cmd.name\<close> for every alias of every command, in order.
  Assigning a string to \<open>__proto__\<close> adds no property.
\<close>

definition buildDefaultAliases :: "command list \<Rightarrow> (string \<rightharpoonup> string)" where
  "buildDefaultAliases cmds =
     foldl (\<lambda>m cmd. foldl (\<lambda>m' a. if a = ''__proto__'' then m' else m'(a \<mapsto> name cmd))
                      m (aliases cmd))
           Map.empty cmds"

text \<open>\<open>obj[k] = v\<close> on an insertion-ordered object: an existing key keeps its position.\<close>

fun assign :: "string \<Rightarrow> 'v \<Rightarrow> (string \<times> 'v) list \<Rightarrow> (string \<times> 'v) list" where
  "assign k v [] = [(k, v)]"
| "assign k v ((k', v') # kvs) =
     (if k' = k then (k, v) # kvs else (k', v') # assign k v kvs)"

text \<open>
  One iteration of \<open>moduleSources.forEach\<close>. The loop state is the registry, the
  \<open>found\<close> flag, and the calls made to \<open>callback\<close> so far (\<open>None\<close> for \<open>callback()\<close>,
  \<open>Some msg\<close> for \<open>callback(err)\<close>).
\<close>

definition loadFrom ::
  "env \<Rightarrow> string \<Rightarrow> (string \<times> module) list \<times> bool \<times> string option list \<Rightarrow> string
     \<Rightarrow> (string \<times> module) list \<times> bool \<times> string option list" where
  "loadFrom e nm st directory =
     (case st of (ms, found, calls) \<Rightarrow>
        let p0 = path_join e directory nm;
            absolutePath = (if directory = localModuleDirectory
                            then path_join e (dirname e) p0 else p0)
        in if existsSync e absolutePath then
             let p = (if \<not> existsSync e (path_join e absolutePath ''package.json'')
                      then path_join e absolutePath ''main.js'' else absolutePath)
             in (case require e p of
                   Inl msg \<Rightarrow> (ms, found, calls @ [Some msg])
                 | Inr cmds \<Rightarrow>
                     (assign nm \<lparr>path = p, commands = cmds,
                                 defaultAliases = buildDefaultAliases cmds\<rparr> ms,
                      True, calls @ [None]))
           else (ms, found, calls))"

definition loadModule :: "env \<Rightarrow> string \<Rightarrow> bot \<Rightarrow> bot \<times> string option list" where
  "loadModule e nm b =
     (if \<not> hasProp (map_of (modules b)) nm then
        (case foldl (loadFrom e nm) (modules b, False, []) (moduleSources b) of
           (ms, found, calls) \<Rightarrow>
             (b\<lparr>modules := ms\<rparr>,
              if \<not> found then calls @ [Some (''Module '' @ nm @ '' not found'')]
              else calls))
      else (b, [Some (''Module '' @ nm @ '' already loaded'')]))"

section \<open>Command resolution\<close>

text \<open>
  The body of the first \<open>forEach\<close> of \<open>getCommandNamed\<close>:
  \<open>cmdStr = this.modules[name].defaultAliases[cmdStr] || cmdStr\<close>.
  The empty string is falsy, so an alias to it is skipped.
\<close>

definition aliasStep :: "js_value \<Rightarrow> string \<times> module \<Rightarrow> js_value" where
  "aliasStep cmdStr nm = orElse (getProp (defaultAliases (snd nm)) (propertyKey cmdStr)) cmdStr"

fun defaultAliasLoop :: "(string \<times> module) list \<Rightarrow> js_value \<Rightarrow> js_value" where
  "defaultAliasLoop [] cmdStr = cmdStr"
| "defaultAliasLoop (nm # ms) cmdStr = defaultAliasLoop ms (aliasStep cmdStr nm)"

text \<open>
  The second \<open>forEach\<close>: the loop state is the \<open>err\<close> flag and the calls made to
  \<open>callback\<close> so far.
\<close>

fun findLoop ::
  "(string \<times> module) list \<Rightarrow> js_value \<Rightarrow> bool \<times> command option list
     \<Rightarrow> bool \<times> command option list" where
  "findLoop [] cmdStr st = st"
| "findLoop ((n, m) # ms) cmdStr (err, calls) =
     findLoop ms cmdStr
       (case List.find (\<lambda>cmd. Str (name cmd) = cmdStr) (commands m) of
          Some found \<Rightarrow> if err then (False, calls @ [Some found]) else (err, calls)
        | None \<Rightarrow> (err, calls))"

text \<open>Both loops run over \<open>Object.keys(this.modules)\<close>.\<close>

definition resolveAlias :: "bot \<Rightarrow> string \<Rightarrow> js_value" where
  "resolveAlias b cmd =
     (if hasProp (commandAliases (config b)) cmd then getProp (commandAliases (config b)) cmd
      else defaultAliasLoop (ownKeysOrder (modules b)) (Str cmd))"

text \<open>\<open>getCommandNamed\<close> returns the list of calls it makes to its callback.\<close>

definition getCommandNamed :: "bot \<Rightarrow> string \<Rightarrow> command option list" where
  "getCommandNamed b cmd =
     (case findLoop (ownKeysOrder (modules b)) (resolveAlias b cmd) (True, []) of
        (err, calls) \<Rightarrow> if err then calls @ [None] else calls)"

section \<open>Replies\<close>

datatype js_error = TypeError | RangeError | CommandError string

text \<open>
  The pictographs the bot writes lie outside the modelled character range; each is named,
  with the number of UTF-16 code units it takes.
\<close>

datatype emoji = CrossMark | CheckMark | InfoSign | Lock | Hourglass

fun units :: "emoji \<Rightarrow> nat" where
  "units CrossMark = 1"
| "units CheckMark = 1"
| "units InfoSign = 2"
| "units Lock = 2"
| "units Hourglass = 1"

text \<open>
  A \<open>RichEmbed\<close>: its title is the pictograph followed by \<open>embed_title\<close>; then its colour
  and optional description.
\<close>

record embed =
  embed_emoji :: emoji
  embed_title :: string
  embed_color :: string
  embed_description :: "string option"

text \<open>
  Building one: \<open>setTitle\<close> throws a RangeError for a title of more than 256 code units,
  \<open>setDescription\<close> for a description of more than 2048, \<open>setColor\<close> for a colour it
  does not resolve. Every failure is a RangeError, so the order of the calls does not
  show.
\<close>

definition richEmbed ::
  "env \<Rightarrow> emoji \<Rightarrow> string \<Rightarrow> string \<Rightarrow> string option \<Rightarrow> js_error + embed" where
  "richEmbed e em ttl color descr =
     (if 256 < units em + length ttl then Inl RangeError
      else if \<not> resolvesColor e color then Inl RangeError
      else if (case descr of None \<Rightarrow> False | Some d \<Rightarrow> 2048 < length d) then Inl RangeError
      else Inr \<lparr>embed_emoji = em, embed_title = ttl, embed_color = color,
                embed_description = descr\<rparr>)"

text \<open>
  What a pipeline run does to the outside: it sends an embed to a channel, it calls the
  \<open>execute\<close> hook of the command of that name with those arguments, or it leaves a
  rejected promise that nothing handles.
\<close>

datatype effect = Send string embed | Run string "string list" | Unhandled js_error

text \<open>A template literal \<open>${v}\<close> prints a missing argument as \<open>undefined\<close>.\<close>

definition template :: "string option \<Rightarrow> string" where
  "template v = (case v of None \<Rightarrow> ''undefined'' | Some s \<Rightarrow> s)"

text \<open>
  \<open>sendEmojiEmbed\<close> sets the description only when it is truthy. It sends the embed, or
  throws what building it throws.
\<close>

definition sendEmojiEmbed ::
  "env \<Rightarrow> string \<Rightarrow> emoji \<Rightarrow> string \<Rightarrow> string option \<Rightarrow> string option
     \<Rightarrow> js_error + effect" where
  "sendEmojiEmbed e ch em color ttl descr =
     (case richEmbed e em (''   '' @ template ttl) color
             (case descr of None \<Rightarrow> None | Some d \<Rightarrow> if d = [] then None else Some d) of
        Inl err \<Rightarrow> Inl err
      | Inr emb \<Rightarrow> Inr (Send ch emb))"

definition sendError :: "env \<Rightarrow> bot \<Rightarrow> string \<Rightarrow> string \<Rightarrow> string \<Rightarrow> js_error + effect" where
  "sendError e b ch ttl descr =
     sendEmojiEmbed e ch CrossMark (error (defaultColors (config b))) (Some ttl) (Some descr)"

definition util_username :: "user \<Rightarrow> string" where
  "util_username u = username u @ ''#'' @ discriminator u"

section \<open>Strings\<close>

definition is_space :: "char \<Rightarrow> bool" where
  "is_space ch =
     (ch = CHR 0x09 \<or> ch = CHR 0x0A \<or> ch = CHR 0x0B \<or> ch = CHR 0x0C \<or> ch = CHR 0x0D
      \<or> ch = CHR 0x20 \<or> ch = CHR 0xA0)"

definition is_quote :: "char \<Rightarrow> bool" where
  "is_quote ch = (ch = CHR 0x22 \<or> ch = CHR 0x27)"

definition plain :: "char \<Rightarrow> bool" where
  "plain ch = (\<not> is_space ch \<and> \<not> is_quote ch)"

definition trim :: "string \<Rightarrow> string" where
  "trim s = dropWhile is_space (rev (dropWhile is_space (rev s)))"

text \<open>
  \<open>toLowerCase\<close> on code units below 256: the letters \<open>A\<close> to \<open>Z\<close> and the accented
  capitals \<open>0xC0\<close> to \<open>0xDE\<close> (but not \<open>0xD7\<close>) move up by \<open>0x20\<close>. Bit 5 is clear
  in both ranges, so adding \<open>0x20\<close> sets it.
\<close>

definition lower_char :: "char \<Rightarrow> char" where
  "lower_char ch =
     (let n = of_char ch :: nat
      in if (0x41 \<le> n \<and> n \<le> 0x5A) \<or> (0xC0 \<le> n \<and> n \<le> 0xDE \<and> n \<noteq> 0xD7)
         then (case ch of Char b0 b1 b2 b3 b4 b5 b6 b7 \<Rightarrow> Char b0 b1 b2 b3 b4 True b6 b7)
         else ch)"

definition toLowerCase :: "string \<Rightarrow> string" where
  "toLowerCase s = map lower_char s"

definition endsWith :: "string \<Rightarrow> char \<Rightarrow> bool" where
  "endsWith s ch = (s \<noteq> [] \<and> last s = ch)"

definition join :: "string list \<Rightarrow> string \<Rightarrow> string" where
  "join xs sep = (case xs of [] \<Rightarrow> [] | y # ys \<Rightarrow> foldl (\<lambda>acc z. acc @ sep @ z) y ys)"

text \<open>
  \<open>s.match(/[^\s"']+|"([^"]*)"|'([^']*)'/g)\<close>: all matches, left to right. At a plain
  character the first alternative takes the longest run of plain characters; at a quote
  the second or third alternative matches up to the next quote of the same kind, if there
  is one; where nothing matches the search moves on by one character.
\<close>

function matchAll :: "string \<Rightarrow> string list" where
  "matchAll [] = []"
| "matchAll (ch # rest) =
     (if plain ch then
        (ch # takeWhile plain rest) # matchAll (dropWhile plain rest)
      else if is_quote ch \<and> ch \<in> set rest then
        (ch # takeWhile (\<lambda>x. x \<noteq> ch) rest @ [ch])
          # matchAll (tl (dropWhile (\<lambda>x. x \<noteq> ch) rest))
      else matchAll rest)"
  by pat_completeness auto
termination
proof (relation "measure length")
  show "wf (measure (length :: string \<Rightarrow> nat))" by simp
next
  fix ch :: char and rest :: string
  show "(dropWhile plain rest, ch # rest) \<in> measure length"
    using length_dropWhile_le [of plain rest] by simp
next
  fix ch :: char and rest :: string
  have "length (tl (dropWhile (\<lambda>x. x \<noteq> ch) rest)) \<le> length rest"
    using length_dropWhile_le [of "\<lambda>x. x \<noteq> ch" rest] by simp
  then show "(tl (dropWhile (\<lambda>x. x \<noteq> ch) rest), ch # rest) \<in> measure length"
    by simp
next
  fix ch :: char and rest :: string
  show "(rest, ch # rest) \<in> measure length" by simp
qed

text \<open>\<open>match\<close> with the \<open>g\<close> flag returns \<open>null\<close> when there is no match.\<close>

definition js_match :: "string \<Rightarrow> string list option" where
  "js_match s = (case matchAll s of [] \<Rightarrow> None | t # ts \<Rightarrow> Some (t # ts))"

text \<open>
  \<open>a.replace(/^['"]+|['"]$/g, '')\<close>: the leading run of quotes goes, then one trailing
  quote if what is left ends in one.
\<close>

definition stripQuotes :: "string \<Rightarrow> string" where
  "stripQuotes a =
     (let r = dropWhile is_quote a
      in if r \<noteq> [] \<and> is_quote (last r) then butlast r else r)"

section \<open>The middleware pipeline\<close>

record container =
  message :: message
  command :: string
  args :: "string list"

definition prefixForMessageContext :: "bot \<Rightarrow> message \<Rightarrow> string" where
  "prefixForMessageContext b msg =
     (case guild msg of
        None \<Rightarrow> prefix (config b)
      | Some g \<Rightarrow>
          (case settings (config b) g of
             None \<Rightarrow> prefix (config b)
           | Some st \<Rightarrow>
               (case st ''prefix'' of
                  None \<Rightarrow> prefix (config b)
                | Some p \<Rightarrow> p)))"

text \<open>Whether each of the two filters calls \<open>next\<close>.\<close>

definition checkMessageAuthor :: "message \<Rightarrow> bool" where
  "checkMessageAuthor msg = (\<not> is_bot (author msg))"

definition blockHandler :: "bot \<Rightarrow> message \<Rightarrow> bool" where
  "blockHandler b msg = (user_id (author msg) \<notin> set (blockedUsers (config b)))"

text \<open>
  The command detector returns without calling \<open>next\<close>, throws (\<open>match\<close> gave \<open>null\<close>,
  whose \<open>map\<close> is a TypeError), or calls \<open>next\<close> with \<open>c.command\<close> and \<open>c.args\<close> set.
\<close>

datatype detection = NotACommand | DetectorThrew js_error | Detected container

definition commandDetector :: "bot \<Rightarrow> message \<Rightarrow> detection" where
  "commandDetector b msg =
     (let p = prefixForMessageContext b msg
      in if take (length p) (content msg) = p then
           (let argString = trim (drop (length p) (content msg))
            in case js_match argString of
                 None \<Rightarrow> DetectorThrew TypeError
               | Some toks \<Rightarrow>
                   (case map stripQuotes toks of
                      [] \<Rightarrow> DetectorThrew TypeError
                    | a # as \<Rightarrow>
                        Detected \<lparr>message = msg, command = toLowerCase a, args = as\<rparr>))
         else NotACommand)"

text \<open>
  The rate limiter returns the new bot state, what it sent, and how it ended: it called
  \<open>next\<close>, it returned without, or building the notice threw (after the counter was
  written and before the user was blocked).
\<close>

datatype limiter_exit = Forwarded | Dropped | LimiterThrew js_error

text \<open>\<open>new RichEmbed().setTitle(...).setDescription(...).setColor(...)\<close>.\<close>

definition rateLimitEmbed :: "env \<Rightarrow> bot \<Rightarrow> user \<Rightarrow> js_error + embed" where
  "rateLimitEmbed e b u =
     richEmbed e Hourglass '' Rate limit exceeded'' (error (defaultColors (config b)))
       (Some (''User '' @ util_username u @ '' blocked for ''
              @ prettyMs e (blockDurationMs (defaultUserCooldown (config b)))))"

definition rateLimiter ::
  "env \<Rightarrow> container \<Rightarrow> bot \<Rightarrow> bot \<times> effect list \<times> limiter_exit" where
  "rateLimiter e c b =
     (let uid = user_id (author (message c));
          cd = defaultUserCooldown (config b);
          b1 = (if uid \<notin> userCooldowns b
                then b\<lparr>userCooldowns := insert uid (userCooldowns b),
                       timers := timers b
                         @ [(now b + timeoutDelay (intervalMs cd), ClearCooldown uid)]\<rparr>
                else b);
          n = (case userMessageCounters b1 uid of None \<Rightarrow> 0 | Some k \<Rightarrow> k) + 1;
          b2 = b1\<lparr>userMessageCounters := (userMessageCounters b1)(uid \<mapsto> n)\<rparr>
      in if n < messageCount cd then (b2, [], Forwarded)
         else if n = messageCount cd then
           (case rateLimitEmbed e b (author (message c)) of
              Inl err \<Rightarrow> (b2, [], LimiterThrew err)
            | Inr emb \<Rightarrow>
                (b2\<lparr>config := (config b2)\<lparr>blockedUsers := blockedUsers (config b2) @ [uid]\<rparr>,
                    timers := timers b2
                      @ [(now b2 + timeoutDelay (blockDurationMs cd), Unblock uid)]\<rparr>,
                 [Send (channel (message c)) emb],
                 Dropped))
         else (b2, [], Dropped))"

text \<open>The dispatcher: what is done with each call \<open>getCommandNamed\<close> makes to its callback.\<close>

definition requiredCount :: "command \<Rightarrow> nat" where
  "requiredCount cmd = length (filter (\<lambda>i. \<not> endsWith i CHR ''?'') (argumentNames cmd))"

text \<open>\<open>bot.config.commandPermissions[c.command] || cmd.permissionLevel\<close>.\<close>

definition permissionLevelFor :: "bot \<Rightarrow> container \<Rightarrow> command \<Rightarrow> js_value" where
  "permissionLevelFor b c cmd =
     orElse (getProp (commandPermissions (config b)) (command c)) (Str (permissionLevel cmd))"

text \<open>
  \<open>c.message.guild ? bot.config.serverPermissions[c.message.guild.id][c.command] || '' : ''\<close>:
  a server without an entry makes this read a property of \<open>undefined\<close>.
\<close>

definition roleOverrideFor :: "bot \<Rightarrow> container \<Rightarrow> js_error + js_value" where
  "roleOverrideFor b c =
     (case guild (message c) of
        None \<Rightarrow> Inr (Str [])
      | Some g \<Rightarrow>
          (case serverPermissions (config b) g of
             None \<Rightarrow> Inl TypeError
           | Some perms \<Rightarrow> Inr (orElse (getProp perms (command c)) (Str []))))"

definition usageText :: "bot \<Rightarrow> container \<Rightarrow> command \<Rightarrow> string" where
  "usageText b c cmd =
     ''Use `'' @ prefixForMessageContext b (message c) @ command c @ '' ''
       @ join (argumentNames cmd) '' '' @ ''`:'' @ [CHR 0x0A] @ '' '' @ description cmd"

text \<open>
  A notice sent from the callback itself: when building it throws, nothing is sent and the
  exception leaves the dispatcher.
\<close>

definition notice :: "js_error + effect \<Rightarrow> effect list \<times> js_error option" where
  "notice r = (case r of Inl err \<Rightarrow> ([], Some err) | Inr eff \<Rightarrow> ([eff], None))"

text \<open>
  The notice sent from the \<open>catch\<close> handler of the promise \<open>execute\<close> returned: when
  building it throws, the handler's own promise is rejected and nothing handles it.
\<close>

definition catchNotice :: "js_error + effect \<Rightarrow> effect" where
  "catchNotice r = (case r of Inl err \<Rightarrow> Unhandled err | Inr eff \<Rightarrow> eff)"

definition onCommand ::
  "env \<Rightarrow> bot \<Rightarrow> container \<Rightarrow> command option \<Rightarrow> effect list \<times> js_error option" where
  "onCommand e b c found =
     (case found of
        None \<Rightarrow> ([], None)
      | Some cmd \<Rightarrow>
          if requiredCount cmd \<le> length (args c) then
            (let lvl = permissionLevelFor b c cmd
             in case roleOverrideFor b c of
                  Inl err \<Rightarrow> ([], Some err)
                | Inr roleOverride \<Rightarrow>
                    if hasPermission b (member (message c)) (author (message c)) lvl roleOverride
                    then
                      (case execute cmd (args c) (message c) of
                         Fulfilled \<Rightarrow> ([Run (name cmd) (args c)], None)
                       | Rejected m \<Rightarrow>
                           ([Run (name cmd) (args c),
                             catchNotice
                               (sendError e b (channel (message c))
                                  (''Error executing command `'' @ command c @ ''`'') m)],
                            None)
                       | ThrewSync m \<Rightarrow> ([Run (name cmd) (args c)], Some (CommandError m)))
                    else
                      notice (sendEmojiEmbed e (channel (message c)) Lock
                                ''You do not have permission to use this command.'' None None))
          else
            notice (sendError e b (channel (message c)) ''Not enough arguments.''
                      (usageText b c cmd)))"

fun onCommands ::
  "env \<Rightarrow> bot \<Rightarrow> container \<Rightarrow> command option list \<Rightarrow> effect list \<times> js_error option" where
  "onCommands e b c [] = ([], None)"
| "onCommands e b c (f # fs) =
     (case onCommand e b c f of
        (effs, Some err) \<Rightarrow> (effs, Some err)
      | (effs, None) \<Rightarrow>
          (case onCommands e b c fs of (effs', r) \<Rightarrow> (effs @ effs', r)))"

definition commandDispatcher ::
  "env \<Rightarrow> bot \<Rightarrow> container \<Rightarrow> effect list \<times> js_error option" where
  "commandDispatcher e b c = onCommands e b c (getCommandNamed b (command c))"

text \<open>
  \<open>onMessage\<close> for modules that contribute no middleware of their own: the five stages
  of the file, in order. The outcome names the stage that did not call \<open>next\<close>, or the
  stage that threw, or says that the dispatcher returned.
\<close>

datatype stage = AuthorCheck | BlockCheck | Detector | Limiter | Dispatcher

datatype outcome = StoppedAt stage | ThrewAt stage js_error | Returned

definition onMessage :: "env \<Rightarrow> message \<Rightarrow> bot \<Rightarrow> bot \<times> effect list \<times> outcome" where
  "onMessage e msg b =
     (if \<not> checkMessageAuthor msg then (b, [], StoppedAt AuthorCheck)
      else if \<not> blockHandler b msg then (b, [], StoppedAt BlockCheck)
      else
        (case commandDetector b msg of
           NotACommand \<Rightarrow> (b, [], StoppedAt Detector)
         | DetectorThrew err \<Rightarrow> (b, [], ThrewAt Detector err)
         | Detected c \<Rightarrow>
             (case rateLimiter e c b of
                (b', effs, Forwarded) \<Rightarrow>
                  (case commandDispatcher e b' c of
                     (effs', None) \<Rightarrow> (b', effs @ effs', Returned)
                   | (effs', Some err) \<Rightarrow> (b', effs @ effs', ThrewAt Dispatcher err))
              | (b', effs, Dropped) \<Rightarrow> (b', effs, StoppedAt Limiter)
              | (b', effs, LimiterThrew err) \<Rightarrow> (b', effs, ThrewAt Limiter err))))"

fun stage_index :: "stage \<Rightarrow> nat" where
  "stage_index AuthorCheck = 0"
| "stage_index BlockCheck = 1"
| "stage_index Detector = 2"
| "stage_index Limiter = 3"
| "stage_index Dispatcher = 4"

text \<open>The stages a run entered: all up to the one it stopped or threw at.\<close>

fun reached :: "outcome \<Rightarrow> stage \<Rightarrow> bool" where
  "reached (StoppedAt s) t = (stage_index t \<le> stage_index s)"
| "reached (ThrewAt s err) t = (stage_index t \<le> stage_index s)"
| "reached Returned t = True"

definition dispatched :: "effect list \<Rightarrow> bool" where
  "dispatched effs = (\<exists>eff \<in> set effs. case eff of Run n as \<Rightarrow> True | _ \<Rightarrow> False)"

section \<open>Timers and runs\<close>

fun fire :: "timer_action \<Rightarrow> bot \<Rightarrow> bot" where
  "fire (ClearCooldown uid) b =
     b\<lparr>userCooldowns := userCooldowns b - {uid},
       userMessageCounters := (userMessageCounters b)(uid \<mapsto> 0)\<rparr>"
| "fire (Unblock uid) b =
     b\<lparr>config := (config b)\<lparr>blockedUsers := filter (\<lambda>i. i \<noteq> uid) (blockedUsers (config b))\<rparr>\<rparr>"

definition fire_all :: "timer list \<Rightarrow> bot \<Rightarrow> bot" where
  "fire_all tms b = foldl (\<lambda>b' tm. fire (snd tm) b') b tms"

text \<open>
  The clock moves to \<open>t\<close>: every pending timer due by then runs, earliest first and in
  the order set among timers due together; the others stay pending. The clock does not
  move backwards.
\<close>

definition advance :: "nat \<Rightarrow> bot \<Rightarrow> bot" where
  "advance t b =
     (if t < now b then b
      else fire_all (sort_key fst (filter (\<lambda>tm. fst tm \<le> t) (timers b)))
             (b\<lparr>now := t, timers := filter (\<lambda>tm. \<not> fst tm \<le> t) (timers b)\<rparr>))"

datatype event = Message message | Advance nat

fun step :: "env \<Rightarrow> bot \<Rightarrow> event \<Rightarrow> bot" where
  "step e b (Message msg) = fst (onMessage e msg b)"
| "step e b (Advance t) = advance t b"

definition run :: "env \<Rightarrow> bot \<Rightarrow> event list \<Rightarrow> bot" where
  "run e b evs = foldl (step e) b evs"

text \<open>The bot after \<open>bot.load\<close> read the configuration, before any message.\<close>

definition start :: "config \<Rightarrow> (string \<times> module) list \<Rightarrow> bot" where
  "start cfg ms =
     \<lparr>config = cfg, modules = ms, moduleSources = [localModuleDirectory],
      userCooldowns = {}, userMessageCounters = Map.empty, timers = [], now = 0\<rparr>"

section \<open>Reading the specification\<close>

text \<open>
  Follows the specification's words, not the code: the loaded modules' alias indexes are
  searched in load order, the first module that knows the token decides, and a token no
  module knows stands for itself.
\<close>

fun spec_firstAliasMatch :: "(string \<times> module) list \<Rightarrow> string \<Rightarrow> string" where
  "spec_firstAliasMatch [] tok = tok"
| "spec_firstAliasMatch ((n, m) # ms) tok =
     (case defaultAliases m tok of Some t \<Rightarrow> t | None \<Rightarrow> spec_firstAliasMatch ms tok)"

text \<open>Follows the specification's words: a command has a token when it has such a
  character or a complete quoted string.\<close>

fun has_token :: "string \<Rightarrow> bool" where
  "has_token [] = False"
| "has_token (ch # rest) = (plain ch \<or> (is_quote ch \<and> ch \<in> set rest) \<or> has_token rest)"

section \<open>Invariants of the rate limiter's state\<close>

text \<open>
  The message in \<open>c\<close> gets its author blocked: it brings the counter to \<open>messageCount\<close>
  and the notice can be built.
\<close>

definition blocking :: "env \<Rightarrow> container \<Rightarrow> bot \<Rightarrow> bool" where
  "blocking e c b =
     ((case userMessageCounters b (user_id (author (message c))) of None \<Rightarrow> 0 | Some k \<Rightarrow> k) + 1
        = messageCount (defaultUserCooldown (config b))
      \<and> \<not> isl (rateLimitEmbed e b (author (message c))))"






section \<open>A concrete bot\<close>

definition ex_config :: config where
  "ex_config =
     \<lparr>owner = ''1'', prefix = ''$'', commandAliases = Map.empty,
      defaultColors = \<lparr>neutral = ''#287db4'', error = ''#c63737'', success = ''#41b95f''\<rparr>,
      defaultUserCooldown = \<lparr>intervalMs = 10000, messageCount = 5, blockDurationMs = 60000\<rparr>,
      blockedUsers = [], settings = Map.empty, groups = [''admins'' \<mapsto> [''7'']],
      commandPermissions = Map.empty, serverPermissions = Map.empty\<rparr>"

definition mk_module :: "command list \<Rightarrow> module" where
  "mk_module cmds =
     \<lparr>path = ''main.js'', commands = cmds, defaultAliases = buildDefaultAliases cmds\<rparr>"

definition cmd_ping :: command where
  "cmd_ping =
     \<lparr>name = ''ping'', aliases = [''p''], argumentNames = [], permissionLevel = ''all'',
      description = ''Ping the bot.'', execute = (\<lambda>as m. Fulfilled)\<rparr>"

definition cmd_kick :: command where
  "cmd_kick =
     \<lparr>name = ''kick'', aliases = [], argumentNames = [''user'', ''reason?''],
      permissionLevel = ''admins'', description = ''Kick a user.'',
      execute = (\<lambda>as m. Rejected ''Missing Permissions'')\<rparr>"

definition cmd_boom :: command where
  "cmd_boom =
     \<lparr>name = ''boom'', aliases = [], argumentNames = [], permissionLevel = ''all'',
      description = ''Fail at once.'', execute = (\<lambda>as m. ThrewSync ''boom'')\<rparr>"

definition cmd_stats :: command where
  "cmd_stats =
     \<lparr>name = ''stats'', aliases = [''s''], argumentNames = [], permissionLevel = ''all'',
      description = ''Show statistics.'', execute = (\<lambda>as m. Fulfilled)\<rparr>"

definition cmd_status :: command where
  "cmd_status =
     \<lparr>name = ''status'', aliases = [''stats''], argumentNames = [], permissionLevel = ''all'',
      description = ''Show the player status.'', execute = (\<lambda>as m. Fulfilled)\<rparr>"

definition ex_modules :: "(string \<times> module) list" where
  "ex_modules =
     [(''liora-core'', mk_module [cmd_ping, cmd_kick, cmd_boom]),
      (''liora-utils'', mk_module [cmd_stats]),
      (''liora-player'', mk_module [cmd_status])]"

definition ex_bot :: bot where
  "ex_bot = start ex_config ex_modules"

definition core_bot :: bot where
  "core_bot =
     start (ex_config\<lparr>commandAliases := [''k'' \<mapsto> ''kick''],
                      commandPermissions := [''ping'' \<mapsto> ''admins'']\<rparr>)
       [(''liora-core'', mk_module [cmd_ping, cmd_kick, cmd_boom])]"

definition ex_user :: user where
  "ex_user = \<lparr>user_id = ''2'', username = ''bob'', discriminator = ''0001'', is_bot = False\<rparr>"

definition ex_admin :: user where
  "ex_admin = \<lparr>user_id = ''7'', username = ''eve'', discriminator = ''0007'', is_bot = False\<rparr>"

definition ex_message :: "string \<Rightarrow> message" where
  "ex_message txt =
     \<lparr>author = ex_user, content = txt, channel = ''general'', guild = None, member = None\<rparr>"

definition ex_container :: "string \<Rightarrow> string \<Rightarrow> string list \<Rightarrow> container" where
  "ex_container txt cmd as = \<lparr>message = ex_message txt, command = cmd, args = as\<rparr>"

definition guild_bot :: bot where
  "guild_bot =
     start (ex_config\<lparr>serverPermissions := [''g1'' \<mapsto> [''kick'' \<mapsto> ''mods'']]\<rparr>) ex_modules"

definition guild_container :: container where
  "guild_container =
     \<lparr>message = \<lparr>author = ex_user, content = ''$kick bob'', channel = ''general'',
                  guild = Some ''g1'', member = Some \<lparr>roles = {''mods''}\<rparr>\<rparr>,
      command = ''kick'', args = [''bob'']\<rparr>"

text \<open>A message from a server that has no entry in \<open>serverPermissions\<close>.\<close>

definition stranger_message :: message where
  "stranger_message =
     \<lparr>author = ex_user, content = ''$ping'', channel = ''general'',
      guild = Some ''g2'', member = Some \<lparr>roles = {}\<rparr>\<rparr>"

text \<open>A module named by a number, loaded after one named by a word.\<close>

definition numbered_bot :: bot where
  "numbered_bot =
     start ex_config
       [(''zeta'', mk_module [cmd_ping]),
        (''7'', mk_module [cmd_ping\<lparr>description := ''The other ping.''\<rparr>])]"

text \<open>A command named as something every object inherits.\<close>

definition inherited_bot :: bot where
  "inherited_bot =
     start ex_config [(''liora-core'', mk_module [cmd_ping\<lparr>name := ''constructor''\<rparr>])]"

definition ping_container :: container where
  "ping_container = ex_container ''$ping'' ''ping'' []"


text \<open>The same bot with a block shorter than the counting window.\<close>

definition short_block_bot :: bot where
  "short_block_bot =
     start (ex_config\<lparr>defaultUserCooldown :=
                        \<lparr>intervalMs = 10000, messageCount = 5, blockDurationMs = 1000\<rparr>\<rparr>)
       ex_modules"

text \<open>The same bot with a block of thirty days, more than \<open>setTimeout\<close> can wait.\<close>

definition long_block_bot :: bot where
  "long_block_bot =
     start (ex_config\<lparr>defaultUserCooldown :=
                        \<lparr>intervalMs = 10000, messageCount = 5, blockDurationMs = 2592000000\<rparr>\<rparr>)
       ex_modules"

text \<open>The bot after five \<open>$ping\<close> messages of the user at time 0.\<close>

definition five_bot :: bot where
  "five_bot =
     ex_bot\<lparr>config := (config ex_bot)\<lparr>blockedUsers := [''2'']\<rparr>,
            userCooldowns := {''2''}, userMessageCounters := [''2'' \<mapsto> 5],
            timers := [(10000, ClearCooldown ''2''), (60000, Unblock ''2'')]\<rparr>"

definition five_pings :: "event list" where
  "five_pings = [Message (ex_message ''$ping''), Message (ex_message ''$ping''),
                 Message (ex_message ''$ping''), Message (ex_message ''$ping''),
                 Message (ex_message ''$ping'')]"

definition ex_env :: env where
  "ex_env =
     \<lparr>existsSync = (\<lambda>p. False), require = (\<lambda>p. Inl ''Cannot find module''),
      path_join = (\<lambda>a b. a @ ''/'' @ b), dirname = ''/app/src'', prettyMs = (\<lambda>n. ''1m''),
      resolvesColor = (\<lambda>c. True)\<rparr>"

lemmas ex_defs =
  ex_config_def mk_module_def cmd_ping_def cmd_kick_def cmd_boom_def cmd_stats_def
  cmd_status_def ex_modules_def ex_bot_def core_bot_def long_block_bot_def short_block_bot_def ex_container_def guild_bot_def
  guild_container_def stranger_message_def numbered_bot_def inherited_bot_def
  ping_container_def ex_user_def ex_admin_def ex_message_def ex_env_def
  start_def buildDefaultAliases_def

lemmas pipeline_defs =
  onMessage_def checkMessageAuthor_def blockHandler_def commandDetector_def
  prefixForMessageContext_def trim_def js_match_def plain_def is_space_def is_quote_def
  stripQuotes_def toLowerCase_def lower_char_def rateLimiter_def rateLimitEmbed_def
  commandDispatcher_def getCommandNamed_def resolveAlias_def aliasStep_def onCommand_def
  requiredCount_def endsWith_def permissionLevelFor_def roleOverrideFor_def hasPermission_def
  sendError_def sendEmojiEmbed_def template_def usageText_def join_def util_username_def
  dispatched_def Let_def richEmbed_def notice_def catchNotice_def hasProp_def getProp_def
  orElse_def propertyKey_def inheritedNames_def ownKeysOrder_def is_index_def is_digit_def
  index_value_def timeoutDelay_def

lemmas timer_defs = run_def advance_def fire_all_def

section \<open>Keys and timer delays\<close>

lemma ownKeysOrder_plain:
  "\<forall>kv \<in> set kvs. \<not> is_index (fst kv) \<Longrightarrow> ownKeysOrder kvs = kvs"
proof -
  assume a: "\<forall>kv \<in> set kvs. \<not> is_index (fst kv)"
  then have "filter (\<lambda>kv. is_index (fst kv)) kvs = []" by (simp add: filter_empty_conv)
  moreover from a have "filter (\<lambda>kv. \<not> is_index (fst kv)) kvs = kvs" by (simp add: filter_id_conv)
  ultimately show ?thesis by (simp add: ownKeysOrder_def)
qed



section \<open>The two loops of \<open>getCommandNamed\<close>\<close>

lemma find_append:
  "List.find P (xs @ ys) = (case List.find P xs of None \<Rightarrow> List.find P ys | Some x \<Rightarrow> Some x)"
  by (induction xs) auto

lemma findLoop_calls:
  "findLoop ms r (err, calls) =
     (case List.find (\<lambda>cmd. Str (name cmd) = r) (concat (map (\<lambda>nm. commands (snd nm)) ms)) of
        None \<Rightarrow> (err, calls)
      | Some found \<Rightarrow> if err then (False, calls @ [Some found]) else (err, calls))"
proof (induction ms arbitrary: err calls)
  case Nil
  then show ?case by simp
next
  case (Cons nm ms)
  obtain n m where nm: "nm = (n, m)" by (cases nm)
  show ?case
    by (simp add: nm find_append Cons.IH split: option.splits)
qed

lemma getCommandNamed_find:
  "getCommandNamed b tok =
     [List.find (\<lambda>cmd. Str (name cmd) = resolveAlias b tok)
        (concat (map (\<lambda>nm. commands (snd nm)) (ownKeysOrder (modules b))))]"
  by (simp add: getCommandNamed_def findLoop_calls split: option.splits)

lemma defaultAliasLoop_foldl: "defaultAliasLoop ms tok = foldl aliasStep tok ms"
  by (induction ms arbitrary: tok) simp_all

section \<open>The dispatcher on a resolved command\<close>



lemma dispatched_Run [simp]: "dispatched (Run n as # effs)"
  by (simp add: dispatched_def)

lemma dispatched_Send [simp]: "dispatched (Send ch em # effs) = dispatched effs"
  by (simp add: dispatched_def)

lemma dispatched_Unhandled [simp]: "dispatched (Unhandled err # effs) = dispatched effs"
  by (simp add: dispatched_def)

lemma dispatched_Nil [simp]: "\<not> dispatched []"
  by (simp add: dispatched_def)




section \<open>What the rate limiter and the timers change\<close>

lemma rateLimiter_userCooldowns:
  "userCooldowns (fst (rateLimiter e c b)) = insert (user_id (author (message c))) (userCooldowns b)"
  by (auto simp: rateLimiter_def Let_def split: sum.splits)

lemma rateLimiter_counters:
  "userMessageCounters (fst (rateLimiter e c b)) =
     (userMessageCounters b)(user_id (author (message c)) \<mapsto>
        (case userMessageCounters b (user_id (author (message c))) of None \<Rightarrow> 0 | Some k \<Rightarrow> k) + 1)"
  by (auto simp: rateLimiter_def Let_def split: sum.splits)

lemma rateLimiter_blockedUsers:
  "blockedUsers (config (fst (rateLimiter e c b))) =
     blockedUsers (config b)
     @ (if blocking e c b then [user_id (author (message c))] else [])"
  by (auto simp: rateLimiter_def blocking_def Let_def split: sum.splits)


lemma rateLimiter_frame:
  "now (fst (rateLimiter e c b)) = now b"
  "defaultUserCooldown (config (fst (rateLimiter e c b))) = defaultUserCooldown (config b)"
  by (auto simp: rateLimiter_def Let_def split: sum.splits)

lemma commandDetector_message: "commandDetector b msg = Detected c \<Longrightarrow> message c = msg"
  by (auto simp: commandDetector_def Let_def split: if_splits option.splits list.splits)

lemma onMessage_state:
  "fst (onMessage e msg b) = b
   \<or> (\<exists>c. message c = msg \<and> user_id (author msg) \<notin> set (blockedUsers (config b))
           \<and> commandDetector b msg = Detected c
           \<and> fst (onMessage e msg b) = fst (rateLimiter e c b))"
proof (cases "commandDetector b msg")
  case (Detected c)
  then have m: "message c = msg" by (rule commandDetector_message)
  show ?thesis
  proof (cases "checkMessageAuthor msg \<and> blockHandler b msg")
    case True
    then have "fst (onMessage e msg b) = fst (rateLimiter e c b)"
      using Detected
      by (simp add: onMessage_def split: prod.splits option.splits limiter_exit.splits)
    moreover have "user_id (author msg) \<notin> set (blockedUsers (config b))"
      using True by (simp add: blockHandler_def)
    ultimately show ?thesis using m Detected by blast
  next
    case False
    then show ?thesis by (auto simp: onMessage_def)
  qed
qed (simp_all add: onMessage_def)

lemma fire_all_Nil [simp]: "fire_all [] b = b"
  by (simp add: fire_all_def)

lemma fire_all_Cons [simp]: "fire_all (tm # tms) b = fire_all tms (fire (snd tm) b)"
  by (simp add: fire_all_def)

lemma fire_frame:
  "now (fire a b) = now b" "timers (fire a b) = timers b"
  "defaultUserCooldown (config (fire a b)) = defaultUserCooldown (config b)"
  by (cases a; simp)+

lemma fire_all_frame:
  "now (fire_all tms b) = now b" "timers (fire_all tms b) = timers b"
  "defaultUserCooldown (config (fire_all tms b)) = defaultUserCooldown (config b)"
  by (induction tms arbitrary: b; simp add: fire_frame)+

lemma fire_all_blockedUsers:
  "blockedUsers (config (fire_all tms b)) =
     filter (\<lambda>i. Unblock i \<notin> snd ` set tms) (blockedUsers (config b))"
proof (induction tms arbitrary: b)
  case Nil
  then show ?case by simp
next
  case (Cons tm tms)
  show ?case
  proof (cases "snd tm")
    case (ClearCooldown u)
    then show ?thesis by (simp add: Cons.IH)
  next
    case (Unblock u)
    have "filter (\<lambda>i. Unblock i \<notin> snd ` set tms) (filter (\<lambda>i. i \<noteq> u) (blockedUsers (config b)))
            = filter (\<lambda>i. Unblock i \<noteq> snd tm \<and> Unblock i \<notin> snd ` set tms) (blockedUsers (config b))"
      using Unblock by (auto simp: conj_commute)
    then show ?thesis using Unblock by (simp add: Cons.IH)
  qed
qed

lemma fire_all_userCooldowns:
  "userCooldowns (fire_all tms b) = userCooldowns b - {u. ClearCooldown u \<in> snd ` set tms}"
proof (induction tms arbitrary: b)
  case Nil
  then show ?case by simp
next
  case (Cons tm tms)
  show ?case by (cases "snd tm") (auto simp: Cons.IH)
qed

lemma fire_all_counters:
  "userMessageCounters (fire_all tms b) u =
     (if ClearCooldown u \<in> snd ` set tms then Some 0 else userMessageCounters b u)"
proof (induction tms arbitrary: b)
  case Nil
  then show ?case by simp
next
  case (Cons tm tms)
  show ?case by (cases "snd tm") (auto simp: Cons.IH)
qed


lemma advance_cooldown_config:
  "defaultUserCooldown (config (advance t b)) = defaultUserCooldown (config b)"
  by (simp add: advance_def fire_all_frame)


lemma advance_blockedUsers:
  "t \<ge> now b \<Longrightarrow>
   blockedUsers (config (advance t b)) =
     filter (\<lambda>i. Unblock i \<notin> snd ` {tm \<in> set (timers b). fst tm \<le> t}) (blockedUsers (config b))"
  by (simp add: advance_def fire_all_blockedUsers)

lemma advance_userCooldowns:
  "t \<ge> now b \<Longrightarrow>
   userCooldowns (advance t b) =
     userCooldowns b - {u. ClearCooldown u \<in> snd ` {tm \<in> set (timers b). fst tm \<le> t}}"
  by (simp add: advance_def fire_all_userCooldowns)

lemma advance_counters:
  "t \<ge> now b \<Longrightarrow>
   userMessageCounters (advance t b) u =
     (if ClearCooldown u \<in> snd ` {tm \<in> set (timers b). fst tm \<le> t} then Some 0
      else userMessageCounters b u)"
  by (simp add: advance_def fire_all_counters)

lemma advance_past: "t < now b \<Longrightarrow> advance t b = b"
  by (simp add: advance_def)

lemma run_Nil [simp]: "run e b [] = b"
  by (simp add: run_def)

lemma run_Cons [simp]: "run e b (ev # evs) = run e (step e b ev) evs"
  by (simp add: run_def)


lemma run_snoc: "run e b (evs @ [ev]) = step e (run e b evs) ev"
  by (simp add: run_def)

section \<open>The invariants hold in every reachable state\<close>












lemma cooldown_config_step:
  "defaultUserCooldown (config (step e b ev)) = defaultUserCooldown (config b)"
proof (cases ev)
  case (Message msg)
  then show ?thesis using onMessage_state [of e msg b] by (auto simp: rateLimiter_frame)
next
  case (Advance t)
  then show ?thesis by (simp add: advance_cooldown_config)
qed


section \<open>Runs of the concrete bot\<close>


lemma run_five_pings: "run ex_env ex_bot five_pings = five_bot"
  by (simp add: five_pings_def five_bot_def pipeline_defs ex_defs)





section \<open>From the block to the first message after it\<close>














section \<open>The rate limiter at the threshold\<close>





section \<open>Blocked and counting at once\<close>

lemma both_flags_step:
  assumes "\<forall>u. u \<in> set (blockedUsers (config b)) \<and> u \<in> userCooldowns b \<longrightarrow>
             userMessageCounters b u = Some (messageCount (defaultUserCooldown (config b)))"
  shows "\<forall>u. u \<in> set (blockedUsers (config (step e b ev))) \<and> u \<in> userCooldowns (step e b ev) \<longrightarrow>
             userMessageCounters (step e b ev) u = Some (messageCount (defaultUserCooldown (config b)))"
proof (cases ev)
  case (Message msg)
  from onMessage_state [of e msg b] show ?thesis
  proof
    assume "fst (onMessage e msg b) = b"
    then show ?thesis using assms Message by simp
  next
    assume "\<exists>c. message c = msg \<and> user_id (author msg) \<notin> set (blockedUsers (config b))
           \<and> commandDetector b msg = Detected c
           \<and> fst (onMessage e msg b) = fst (rateLimiter e c b)"
    then obtain c where c: "message c = msg" "user_id (author msg) \<notin> set (blockedUsers (config b))"
        "fst (onMessage e msg b) = fst (rateLimiter e c b)" by blast
    show ?thesis
      using assms c(1,2) unfolding Message step.simps c(3)
      by (auto simp: rateLimiter_blockedUsers rateLimiter_userCooldowns rateLimiter_counters
                     blocking_def
               split: if_splits)
  qed
next
  case (Advance t)
  show ?thesis
  proof (cases "t < now b")
    case True
    then show ?thesis using assms Advance by (simp add: advance_past)
  next
    case False
    then have t: "now b \<le> t" by simp
    show ?thesis
      using assms unfolding Advance step.simps
      by (auto simp: advance_blockedUsers [OF t] advance_userCooldowns [OF t]
                     advance_counters [OF t])
  qed
qed

lemma both_flags_run:
  assumes "\<forall>u. u \<in> set (blockedUsers (config b)) \<and> u \<in> userCooldowns b \<longrightarrow>
             userMessageCounters b u = Some (messageCount (defaultUserCooldown (config b)))"
  shows "\<forall>u. u \<in> set (blockedUsers (config (run e b evs))) \<and> u \<in> userCooldowns (run e b evs) \<longrightarrow>
             userMessageCounters (run e b evs) u = Some (messageCount (defaultUserCooldown (config b)))"
  using assms
proof (induction evs arbitrary: b)
  case Nil
  then show ?case by simp
next
  case (Cons ev evs)
  have "\<forall>u. u \<in> set (blockedUsers (config (step e b ev))) \<and> u \<in> userCooldowns (step e b ev) \<longrightarrow>
             userMessageCounters (step e b ev) u
               = Some (messageCount (defaultUserCooldown (config (step e b ev))))"
    using both_flags_step [OF Cons.prems, of e ev] by (simp add: cooldown_config_step)
  from Cons.IH [OF this] show ?case by (simp add: cooldown_config_step)
qed

text \<open>
  C2, as the claim states it, fails: the message that gets a user blocked leaves the
  user's counting window open. After five \<open>$ping\<close> messages at time 0, with the threshold
  at 5, the user is in \<open>blockedUsers\<close> and in \<open>userCooldowns\<close> at once.
\<close>

theorem flags_exclusive_counterexample:
  "''2'' \<in> set (blockedUsers (config (run ex_env ex_bot five_pings)))
   \<and> ''2'' \<in> userCooldowns (run ex_env ex_bot five_pings)"
  by (simp add: run_five_pings five_bot_def)

text \<open>
  C2, amended. In every state reached from the start by messages and clock advances
  (which run the window-expiry and unblock-expiry timers), a user can be both blocked and
  in a counting window, and whenever both hold the user's counter is exactly
  \<open>messageCount\<close>: it is the window in which the user was blocked, and nothing has been
  counted in it since.
\<close>

theorem flags_both_at_threshold:
  assumes "b = run e (start cfg ms) evs"
    and "u \<in> set (blockedUsers (config b))"
    and "u \<in> userCooldowns b"
  shows "userMessageCounters b u = Some (messageCount (defaultUserCooldown cfg))"
proof -
  have "\<forall>u. u \<in> set (blockedUsers (config (start cfg ms))) \<and> u \<in> userCooldowns (start cfg ms) \<longrightarrow>
          userMessageCounters (start cfg ms) u
            = Some (messageCount (defaultUserCooldown (config (start cfg ms))))"
    by (simp add: start_def)
  from both_flags_run [OF this, of e evs] assms show ?thesis
    by (simp add: start_def)
qed

theorem flags_both_at_threshold_witness:
  "five_bot = run ex_env (start ex_config ex_modules) five_pings
   \<and> ''2'' \<in> set (blockedUsers (config five_bot))
   \<and> ''2'' \<in> userCooldowns five_bot
   \<and> userMessageCounters five_bot ''2'' = Some 5"
proof -
  have r: "five_bot = run ex_env (start ex_config ex_modules) five_pings"
    using run_five_pings by (simp add: ex_bot_def)
  have m: "''2'' \<in> set (blockedUsers (config five_bot))" "''2'' \<in> userCooldowns five_bot"
    by (simp_all add: five_bot_def)
  have "userMessageCounters five_bot ''2'' = Some (messageCount (defaultUserCooldown ex_config))"
    using r m by (rule flags_both_at_threshold)
  then have c: "userMessageCounters five_bot ''2'' = Some 5"
    by (simp add: ex_config_def)
  from r m c show ?thesis by (intro conjI)
qed

section \<open>A block and what follows it\<close>





section \<open>Permission check: the order of the tests\<close>

text \<open>
  C4. \<open>hasPermission\<close> allows exactly when the actor is the configured owner, or the
  required group is \<open>all\<close>, or the required group is a configured group that lists the
  actor's id, or a member context is present and the member holds the override role;
  tested in that order, so an owner passes whatever the other arguments are. The group
  and the role range over every value the dispatcher can pass, strings among them.
\<close>

theorem hasPermission_short_circuit:
  "hasPermission b mem usr grp role =
     (user_id usr = owner (config b)
      \<or> grp = Str ''all''
      \<or> (\<exists>g ids. grp = Str g \<and> groups (config b) g = Some ids \<and> user_id usr \<in> set ids)
      \<or> (\<exists>m r. mem = Some m \<and> role = Str r \<and> r \<in> roles m))"
  by (auto simp: hasPermission_def split: option.splits js_value.splits)

theorem hasPermission_short_circuit_witness:
  "hasPermission ex_bot None ex_admin (Str ''admins'') (Str [])
   \<and> \<not> hasPermission ex_bot None ex_user (Str ''admins'') (Str [])"
  using hasPermission_short_circuit [of ex_bot None ex_admin "Str ''admins''" "Str []"]
    hasPermission_short_circuit [of ex_bot None ex_user "Str ''admins''" "Str []"]
  by (simp add: ex_defs)

section \<open>Command resolution\<close>

text \<open>
  \<open>Object.keys\<close> lists a module named \<open>7\<close> before one named \<open>zeta\<close> loaded earlier, so
  of two commands of one name the later module's is found.
\<close>

lemma getCommandNamed_numbered_module:
  "map fst (modules numbered_bot) = [''zeta'', ''7'']
   \<and> map fst (ownKeysOrder (modules numbered_bot)) = [''7'', ''zeta'']
   \<and> map (map_option description) (getCommandNamed numbered_bot ''ping'')
       = [Some ''The other ping.'']"
  by (simp add: pipeline_defs ex_defs)

text \<open>
  \<open>constructor in commandAliases\<close> is true of an empty alias map, and what is read there
  is no string: a command of that name is never found.
\<close>

lemma getCommandNamed_inherited_name:
  "commandAliases (config inherited_bot) ''constructor'' = None
   \<and> map name (commands (snd (hd (modules inherited_bot)))) = [''constructor'']
   \<and> resolveAlias inherited_bot ''constructor'' = Inherited ''constructor''
   \<and> getCommandNamed inherited_bot ''constructor'' = [None]"
  by (simp add: pipeline_defs ex_defs)

text \<open>
  C5. The claim holds of the code except for the search of the default aliases, which
  does not stop at the first match: the loop runs on through every module and applies
  each module's alias to what the module before made of the token. With \<open>s\<close> an alias of
  \<open>stats\<close> in an earlier module and \<open>stats\<close> an alias of \<open>status\<close> in a later one, and
  no override configured, the token \<open>s\<close> resolves to the later module's \<open>status\<close>,
  where the first match is \<open>stats\<close>. The second loop of the same function does stop at
  its first match.
\<close>

theorem getCommandNamed_alias_chain:
  "commandAliases (config ex_bot) ''s'' = None
   \<and> map fst (ownKeysOrder (modules ex_bot)) = [''liora-core'', ''liora-utils'', ''liora-player'']
   \<and> spec_firstAliasMatch (ownKeysOrder (modules ex_bot)) ''s'' = ''stats''
   \<and> resolveAlias ex_bot ''s'' = Str ''status''
   \<and> map (map_option name) (getCommandNamed ex_bot ''s'') = [Some ''status'']"
  by (simp add: pipeline_defs ex_defs)

section \<open>The dispatcher: arity\<close>




section \<open>The dispatcher: permission group and role override\<close>

text \<open>
  C7. The claim holds of the code except in two cases. In a server that has
  no entry in \<open>serverPermissions\<close>, the role override is not the empty string: line 384
  reads a property of \<open>undefined\<close> and the dispatcher throws a TypeError before the
  permission check, whatever the command. And the permission override is looked up under
  the token the user typed, not under the name of the command it resolves to: with the
  override \<open>ping \<mapsto> admins\<close> configured, \<open>$ping\<close> from a user outside \<open>admins\<close> is
  refused, and \<open>$p\<close>, an alias of \<open>ping\<close>, from the same user runs \<open>ping\<close> at its
  declared level \<open>all\<close>.
\<close>

theorem dispatcher_permission_failures:
  "guild stranger_message = Some ''g2''
   \<and> serverPermissions (config ex_bot) ''g2'' = None
   \<and> commandDetector ex_bot stranger_message
       = Detected \<lparr>message = stranger_message, command = ''ping'', args = []\<rparr>
   \<and> roleOverrideFor ex_bot \<lparr>message = stranger_message, command = ''ping'', args = []\<rparr>
       = Inl TypeError
   \<and> snd (onMessage ex_env stranger_message ex_bot) = ([], ThrewAt Dispatcher TypeError)
   \<and> commandPermissions (config core_bot) (name cmd_ping) = Some ''admins''
   \<and> map (map_option name) (getCommandNamed core_bot ''p'') = [Some ''ping'']
   \<and> permissionLevelFor core_bot (ex_container ''$p'' ''p'' []) cmd_ping = Str ''all''
   \<and> fst (snd (onMessage ex_env (ex_message ''$p'') core_bot)) = [Run ''ping'' []]
   \<and> \<not> dispatched (fst (snd (onMessage ex_env (ex_message ''$ping'') core_bot)))"
  by (simp add: pipeline_defs ex_defs)

section \<open>The dispatcher: a failing command\<close>




section \<open>Loading a module twice\<close>

text \<open>
  C9. When a module of that name is already in the registry, \<open>loadModule\<close> calls back once
  with the error \<open>Module <name> already loaded\<close> and leaves the bot as it was: the
  registry, each module's commands and alias index, and what every token resolves to.
\<close>

theorem loadModule_already_loaded:
  assumes "map_of (modules b) nm \<noteq> None"
  shows "loadModule e nm b = (b, [Some (''Module '' @ nm @ '' already loaded'')])
         \<and> modules (fst (loadModule e nm b)) = modules b
         \<and> (\<forall>tok. getCommandNamed (fst (loadModule e nm b)) tok = getCommandNamed b tok)"
proof -
  have "loadModule e nm b = (b, [Some (''Module '' @ nm @ '' already loaded'')])"
    using assms by (auto simp: loadModule_def hasProp_def)
  then show ?thesis by simp
qed

theorem loadModule_already_loaded_witness:
  "map_of (modules ex_bot) ''liora-core'' \<noteq> None
   \<and> loadModule ex_env ''liora-core'' ex_bot
       = (ex_bot, [Some ''Module liora-core already loaded''])
   \<and> map (map_option name)
         (getCommandNamed (fst (loadModule ex_env ''liora-core'' ex_bot)) ''p'')
       = [Some ''ping'']"
proof -
  have h: "map_of (modules ex_bot) ''liora-core'' \<noteq> None"
    by (simp add: ex_defs)
  have g: "map (map_option name) (getCommandNamed ex_bot ''p'') = [Some ''ping'']"
    by (simp add: ex_defs pipeline_defs)
  show ?thesis using h g loadModule_already_loaded [OF h, of ex_env] by simp
qed

section \<open>Tokens\<close>

lemma space_not_plain: "is_space ch \<Longrightarrow> \<not> plain ch"
  by (simp add: plain_def)

lemma space_not_quote: "is_space ch \<Longrightarrow> \<not> is_quote ch"
  by (auto simp: is_space_def is_quote_def)

lemma matchAll_Nil_iff: "matchAll s = [] \<longleftrightarrow> \<not> has_token s"
  by (induction s rule: matchAll.induct) auto

lemma has_token_dropWhile_space: "has_token (dropWhile is_space s) = has_token s"
  by (induction s) (auto dest: space_not_plain space_not_quote)

lemma has_token_snoc_space: "is_space ch \<Longrightarrow> has_token (s @ [ch]) = has_token s"
  by (induction s) (auto dest: space_not_plain space_not_quote)

lemma has_token_drop_trailing:
  "has_token (rev (dropWhile is_space (rev s))) = has_token s"
proof (induction s rule: rev_induct)
  case Nil
  then show ?case by simp
next
  case (snoc ch s)
  then show ?case by (simp add: has_token_snoc_space)
qed

lemma has_token_trim: "has_token (trim s) = has_token s"
  by (simp add: trim_def has_token_dropWhile_space has_token_drop_trailing)

lemma only_spaces_no_token: "\<forall>ch \<in> set s. is_space ch \<Longrightarrow> \<not> has_token s"
  by (induction s) (auto dest: space_not_plain space_not_quote)

lemma js_match_None_iff: "js_match (trim s) = None \<longleftrightarrow> \<not> has_token s"
  using matchAll_Nil_iff [of "trim s"] has_token_trim [of s]
  by (auto simp: js_match_def split: list.splits)

section \<open>A prefix with nothing after it\<close>

text \<open>
  C10. When the content starts with the prefix that applies and what follows holds no
  token (no character other than white space and quotes, and no closed pair of quotes),
  \<open>match\<close> gives \<open>null\<close> and the command detector throws a TypeError: it neither returns
  quietly nor goes on with an empty command. The run ends there, the bot is unchanged,
  nothing is sent and no command is executed.
\<close>

theorem commandDetector_no_token:
  assumes "take (length (prefixForMessageContext b msg)) (content msg) = prefixForMessageContext b msg"
    and "\<not> has_token (drop (length (prefixForMessageContext b msg)) (content msg))"
  shows "commandDetector b msg = DetectorThrew TypeError
         \<and> onMessage e msg b =
             (b, [],
              if is_bot (author msg) then StoppedAt AuthorCheck
              else if user_id (author msg) \<in> set (blockedUsers (config b)) then StoppedAt BlockCheck
              else ThrewAt Detector TypeError)
         \<and> \<not> dispatched (fst (snd (onMessage e msg b)))
         \<and> \<not> reached (snd (snd (onMessage e msg b))) Limiter"
proof -
  have m: "js_match (trim (drop (length (prefixForMessageContext b msg)) (content msg))) = None"
    using assms(2) by (simp add: js_match_None_iff)
  have d: "commandDetector b msg = DetectorThrew TypeError"
    using assms(1) m by (simp add: commandDetector_def Let_def)
  then show ?thesis
    by (simp add: onMessage_def checkMessageAuthor_def blockHandler_def)
qed

theorem commandDetector_no_token_witness:
  "take (length (prefixForMessageContext ex_bot (ex_message ''$  ''))) (content (ex_message ''$  ''))
     = prefixForMessageContext ex_bot (ex_message ''$  '')
   \<and> \<not> has_token (drop (length (prefixForMessageContext ex_bot (ex_message ''$  '')))
                      (content (ex_message ''$  '')))
   \<and> commandDetector ex_bot (ex_message ''$  '') = DetectorThrew TypeError
   \<and> onMessage ex_env (ex_message ''$  '') ex_bot = (ex_bot, [], ThrewAt Detector TypeError)"
proof -
  let ?m = "ex_message ''$  ''"
  have p: "take (length (prefixForMessageContext ex_bot ?m)) (content ?m)
             = prefixForMessageContext ex_bot ?m"
    by (simp add: prefixForMessageContext_def ex_defs)
  have t: "\<not> has_token (drop (length (prefixForMessageContext ex_bot ?m)) (content ?m))"
    by (simp add: prefixForMessageContext_def ex_defs plain_def is_space_def is_quote_def)
  have u: "\<not> is_bot (author ?m)" "user_id (author ?m) \<notin> set (blockedUsers (config ex_bot))"
    by (simp_all add: ex_defs)
  have d: "commandDetector ex_bot ?m = DetectorThrew TypeError"
    using commandDetector_no_token [OF p t, of ex_env] by (rule conjunct1)
  have o: "onMessage ex_env ?m ex_bot = (ex_bot, [], ThrewAt Detector TypeError)"
    using commandDetector_no_token [OF p t, of ex_env] u by simp
  from p t d o show ?thesis by (intro conjI)
qed

section \<open>Lower case\<close>

text \<open>Setting bit 5 is adding \<open>0x20\<close>, on every character the conversion changes.\<close>

lemma lower_char_add:
  "\<forall>ch. lower_char ch =
     (let n = of_char ch :: nat
      in if (0x41 \<le> n \<and> n \<le> 0x5A) \<or> (0xC0 \<le> n \<and> n \<le> 0xDE \<and> n \<noteq> 0xD7)
         then char_of (n + 0x20) else ch)"
  by code_simp


end
